theory Spec2Isabelle
  imports
    Main
    "HOL-Library.Word"
    "HOL-Library.Sublist"
    "HOL-Library.Char_ord"
    "HOL-Library.List_Lexorder"
    "HOL-Library.Multiset"
begin

section \<open>deletetsm: bulk deletion of series from TSM files\<close>

text \<open>
  A shallow embedding of \<^verbatim>\<open>cmd/influx_inspect/deletetsm/deletetsm.go\<close>.
  Every method of \<^verbatim>\<open>Command\<close> becomes a function that takes the command record and
  the world (the files on disk and what was printed to \<^verbatim>\<open>cmd.Stdout\<close>) and returns
  the \<^verbatim>\<open>error\<close> it returns in Go together with what it changed.
  Calls that can fail for reasons outside the program (the operating system, the tsm1
  reader and writer) fail in the model when a record of injected faults says so.
  The diagnostic \<^verbatim>\<open>log.Printf\<close> lines and the \<^verbatim>\<open>fmt.Println\<close> of the loaded keys
  (written to the process's own standard output) change neither a file nor a decision
  of the program and are left out.
\<close>

subsection \<open>Data\<close>

text \<open>The values of Go's \<^verbatim>\<open>error\<close> that the command can return, one per failing call.\<close>

datatype error =
    FlagError                 \<comment> \<open>\<^verbatim>\<open>-seriesFile flag required\<close>\<close>
  | WalkError                 \<comment> \<open>the error \<^verbatim>\<open>filepath.Walk\<close> hands to the callback\<close>
  | RelError                  \<comment> \<open>\<^verbatim>\<open>filepath.Rel\<close>\<close>
  | StructuralError string    \<comment> \<open>\<^verbatim>\<open>invalid directory structure for %s\<close>\<close>
  | OpenError string          \<comment> \<open>\<^verbatim>\<open>os.Open\<close>\<close>
  | ScanError                 \<comment> \<open>\<^verbatim>\<open>scanner.Err()\<close>\<close>
  | ReaderError string        \<comment> \<open>\<^verbatim>\<open>unable to read %s: %s\<close>\<close>
  | RemoveError string        \<comment> \<open>\<^verbatim>\<open>os.RemoveAll\<close>\<close>
  | CreateError string        \<comment> \<open>\<^verbatim>\<open>os.Create\<close>\<close>
  | WriterError               \<comment> \<open>\<^verbatim>\<open>tsm1.NewTSMWriter\<close>\<close>
  | BlockReadError            \<comment> \<open>\<^verbatim>\<open>itr.Read()\<close>\<close>
  | WriteBlockError           \<comment> \<open>\<^verbatim>\<open>w.WriteBlock\<close>\<close>
  | WriteIndexError           \<comment> \<open>\<^verbatim>\<open>w.WriteIndex\<close>\<close>
  | CloseError                \<comment> \<open>\<^verbatim>\<open>w.Close\<close>\<close>
  | RenameError               \<comment> \<open>\<^verbatim>\<open>os.Rename\<close>\<close>

text \<open>\<^verbatim>\<open>models.Tag\<close>: a tag key and its value, both byte strings.\<close>

record Tag =
  Key :: string
  Value :: string

text \<open>
  What \<^verbatim>\<open>itr.Read()\<close> yields for one block and \<^verbatim>\<open>w.WriteBlock\<close> takes: the composite
  key, the time range (int64 nanoseconds) and the encoded payload.
\<close>

record block =
  blk_key :: string
  blk_minTime :: "64 word"
  blk_maxTime :: "64 word"
  blk_data :: string

text \<open>
  A file on disk: a complete TSM file, read by the block iterator as a sequence of
  blocks in file order; a TSM file still being written (blocks without an index, which
  no reader opens); or a text file, as a list of lines.
\<close>

datatype content = Segment "block list" | Partial "block list" | Text "string list"

text \<open>
  The lines the command prints to \<^verbatim>\<open>cmd.Stdout\<close>:
  \<^verbatim>\<open>Processing TSM files for '%s'\<close>, \<^verbatim>\<open>Processing data for TSM file '%s'\<close> and
  \<^verbatim>\<open>Dropped '%d' total blocks\<close>.
\<close>

datatype out_line = ProcessingUnit string | ProcessingFile string | DroppedTotal nat

record world =
  disk :: "string \<rightharpoonup> content"
  Stdout :: "out_line list"

text \<open>The struct \<^verbatim>\<open>Command\<close>, without its two writers.\<close>

record Command =
  dataDir :: string
  database :: string
  retentionPolicy :: string
  seriesFile :: string
  sanitize :: bool
  verbose :: bool
  tsmFiles :: "string \<rightharpoonup> string list"
  series :: "string \<rightharpoonup> bool"

text \<open>
  The parts of the repository and of its build that the command calls and that are not
  among the sources at hand are parameters of the model:
  the constant \<^verbatim>\<open>tsm1.TSMFileExtension\<close>,
  \<^verbatim>\<open>filepath.Rel\<close> and \<^verbatim>\<open>filepath.Join\<close> of two elements (both clean their
  arguments, by rules the model does not repeat),
  \<^verbatim>\<open>tsm1.SeriesAndFieldFromCompositeKey\<close> and \<^verbatim>\<open>models.ParseKey\<close>.
  The last two return two values and no error, as the call sites show.
\<close>

record lib =
  TSMFileExtension :: string
  Rel :: "string \<Rightarrow> string \<Rightarrow> error + string"
  Join :: "string \<Rightarrow> string \<Rightarrow> string"
  SeriesAndFieldFromCompositeKey :: "string \<Rightarrow> string \<times> string"
  ParseKey :: "string \<Rightarrow> string \<times> Tag list"

text \<open>
  The calls of \<^verbatim>\<open>processTSMFile\<close> that can fail, for one run of it on one file.
  \<^verbatim>\<open>read_fails_at\<close> and \<^verbatim>\<open>write_fails_at\<close> give the position, in the input, of the
  block at which \<^verbatim>\<open>itr.Read()\<close> or \<^verbatim>\<open>w.WriteBlock\<close> returns an error.
\<close>

record faults =
  open_fails :: bool
  reader_fails :: bool
  remove_fails :: bool
  remove_idx_fails :: bool
  create_fails :: bool
  writer_fails :: bool
  read_fails_at :: "nat option"
  write_fails_at :: "nat option"
  index_fails :: bool
  close_fails :: bool
  rename_fails :: bool

definition no_faults :: faults where
  "no_faults = \<lparr> open_fails = False, reader_fails = False, remove_fails = False,
     remove_idx_fails = False, create_fails = False, writer_fails = False,
     read_fails_at = None, write_fails_at = None, index_fails = False,
     close_fails = False, rename_fails = False \<rparr>"

text \<open>
  What the run meets outside the program: the entries \<^verbatim>\<open>filepath.Walk\<close> passes to the
  callback, in its order, each with the error of its \<^verbatim>\<open>lstat\<close> or directory read if
  any; whether opening the series file fails; the number of lines after which its
  scanner stops with an error, if it does; the lines a scanner finds in the bytes of a
  TSM file, should the series file be one; the faults of each file's rewrite; and the order in which
  \<^verbatim>\<open>range cmd.tsmFiles\<close> yields the keys, which Go leaves open.
\<close>

record env =
  walk_entries :: "(string \<times> error option) list"
  open_series_fails :: bool
  scan_fails_at :: "nat option"
  binary_lines :: "block list \<Rightarrow> string list"
  faults_of :: "string \<Rightarrow> faults"
  range_order :: "string list"

subsection \<open>formatSerieKey\<close>

text \<open>
  The loop \<^verbatim>\<open>for idx, tag := range tags\<close> on the string builder: \<^verbatim>\<open>key=value\<close>, and a
  comma unless the tag is the last one. \<^verbatim>\<open>n\<close> is \<^verbatim>\<open>len(tags)\<close>; the comparison is on
  Go's signed ints.
\<close>

fun write_tags :: "nat \<Rightarrow> nat \<Rightarrow> Tag list \<Rightarrow> string \<Rightarrow> string" where
  "write_tags idx n [] b = b"
| "write_tags idx n (tag # tags) b =
     (let b1 = b @ Key tag @ ''='' @ Value tag;
          b2 = (if int idx < int n - 1 then b1 @ '','' else b1)
      in write_tags (idx + 1) n tags b2)"

definition formatSerieKey :: "lib \<Rightarrow> string \<Rightarrow> error + string" where
  "formatSerieKey L seriesBytes =
     (case ParseKey L seriesBytes of (measurement, tags) \<Rightarrow>
        Inr (write_tags 0 (length tags) tags (measurement @ '','')))"

subsection \<open>processTSMFile\<close>

text \<open>
  \<^verbatim>\<open>os.RemoveAll\<close> removes the path and, when it is a directory, everything below it.
\<close>

definition RemoveAll :: "string \<Rightarrow> (string \<rightharpoonup> content) \<Rightarrow> (string \<rightharpoonup> content)" where
  "RemoveAll p d = (\<lambda>q. if q = p \<or> prefix (p @ ''/'') q then None else d q)"

text \<open>
  The loop over the block iterator. \<^verbatim>\<open>i\<close> counts the blocks read so far, \<^verbatim>\<open>out\<close> is
  what the writer has been given and \<^verbatim>\<open>n\<close> is \<^verbatim>\<open>droppedBlocksCount\<close> (a Go int that
  counts blocks of one file; it is a natural number here). The result is the error the
  loop returns with, if any, and the writer's blocks and the count at that point.
\<close>

fun iterate_blocks ::
  "lib \<Rightarrow> faults \<Rightarrow> Command \<Rightarrow> nat \<Rightarrow> block list \<Rightarrow> block list \<Rightarrow> nat
     \<Rightarrow> error option \<times> block list \<times> nat" where
  "iterate_blocks L ft cmd i [] out n = (None, out, n)"
| "iterate_blocks L ft cmd i (b # bs) out n =
     (if read_fails_at ft = Some i then (Some BlockReadError, out, n)
      else
        case formatSerieKey L (fst (SeriesAndFieldFromCompositeKey L (blk_key b))) of
          Inl e \<Rightarrow> (Some e, out, n)
        | Inr serieKey \<Rightarrow>
            if series cmd serieKey \<noteq> None
            then iterate_blocks L ft cmd (i + 1) bs out (n + 1)
            else if write_fails_at ft = Some i then (Some WriteBlockError, out, n)
            else iterate_blocks L ft cmd (i + 1) bs (out @ [b]) n)"

definition processTSMFile ::
  "lib \<Rightarrow> faults \<Rightarrow> Command \<Rightarrow> string \<Rightarrow> world \<Rightarrow> error option \<times> world" where
  "processTSMFile L ft cmd path w =
     (case (if open_fails ft then None else disk w path) of
        None \<Rightarrow> (Some (OpenError path), w)
      | Some f \<Rightarrow>
         (case (if reader_fails ft then None
                else case f of Segment bs \<Rightarrow> Some bs | _ \<Rightarrow> None) of
            None \<Rightarrow> (Some (ReaderError path), w)
          | Some bs \<Rightarrow>
             (let outputPath = path @ ''.rewriting.tmp'' in
              if remove_fails ft then (Some (RemoveError outputPath), w)
              else
                let w1 = w\<lparr>disk := RemoveAll outputPath (disk w)\<rparr> in
                if remove_idx_fails ft
                then (Some (RemoveError (outputPath @ ''.idx.tmp'')), w1)
                else
                  let w2 = w1\<lparr>disk := RemoveAll (outputPath @ ''.idx.tmp'') (disk w1)\<rparr> in
                  if create_fails ft then (Some (CreateError outputPath), w2)
                  else
                    let w3 = w2\<lparr>disk := (disk w2)(outputPath \<mapsto> Partial [])\<rparr> in
                    if writer_fails ft then (Some WriterError, w3)
                    else
                      (case iterate_blocks L ft cmd 0 bs [] 0 of
                         (err, out, droppedBlocksCount) \<Rightarrow>
                           let w4 = w3\<lparr>disk := (disk w3)(outputPath \<mapsto> Partial out)\<rparr> in
                           (case err of
                              Some e \<Rightarrow> (Some e, w4)
                            | None \<Rightarrow>
                               let w5 = w4\<lparr>Stdout :=
                                          Stdout w4 @ [DroppedTotal droppedBlocksCount]\<rparr> in
                               if index_fails ft then (Some WriteIndexError, w5)
                               else if close_fails ft then (Some CloseError, w5)
                               else
                                 let w6 = w5\<lparr>disk := (disk w5)(outputPath \<mapsto> Segment out)\<rparr> in
                                 if rename_fails ft then (Some RenameError, w6)
                                 else (None,
                                   w6\<lparr>disk := ((disk w6)(outputPath := None))
                                                  (path \<mapsto> Segment out)\<rparr>))))))"


subsection \<open>deleteFromTSMFiles and deleteSeries\<close>

text \<open>
  The loop of \<^verbatim>\<open>deleteFromTSMFiles\<close> over the sorted slice. The call
  \<^verbatim>\<open>cmd.processTSMFile(file)\<close> is a statement: what it returns is dropped.
\<close>

fun process_files ::
  "lib \<Rightarrow> (string \<Rightarrow> faults) \<Rightarrow> Command \<Rightarrow> string list \<Rightarrow> world \<Rightarrow> world" where
  "process_files L fo cmd [] w = w"
| "process_files L fo cmd (p # ps) w =
     (let w1 = w\<lparr>Stdout := Stdout w @ [ProcessingFile p]\<rparr>;
          w2 = snd (processTSMFile L (fo p) cmd p w1)
      in process_files L fo cmd ps w2)"

text \<open>
  \<^verbatim>\<open>sort.Strings\<close> orders the paths as Go compares strings, byte by byte; that is the
  lexicographic order of lists of characters here.
\<close>

definition deleteFromTSMFiles ::
  "lib \<Rightarrow> (string \<Rightarrow> faults) \<Rightarrow> Command \<Rightarrow> string list \<Rightarrow> world \<Rightarrow> error option \<times> world" where
  "deleteFromTSMFiles L fo cmd files w = (None, process_files L fo cmd (sort files) w)"

fun deleteSeries_loop ::
  "lib \<Rightarrow> env \<Rightarrow> Command \<Rightarrow> string list \<Rightarrow> world \<Rightarrow> error option \<times> world" where
  "deleteSeries_loop L E cmd [] w = (None, w)"
| "deleteSeries_loop L E cmd (k # ks) w =
     (case tsmFiles cmd k of
        None \<Rightarrow> deleteSeries_loop L E cmd ks w
      | Some files \<Rightarrow>
          (let w1 = w\<lparr>Stdout := Stdout w @ [ProcessingUnit k]\<rparr> in
           case deleteFromTSMFiles L (faults_of E) cmd files w1 of
             (Some e, w2) \<Rightarrow> (Some e, w2)
           | (None, w2) \<Rightarrow> deleteSeries_loop L E cmd ks w2))"

definition deleteSeries :: "lib \<Rightarrow> env \<Rightarrow> Command \<Rightarrow> world \<Rightarrow> error option \<times> world" where
  "deleteSeries L E cmd w = deleteSeries_loop L E cmd (range_order E) w"

subsection \<open>walkTSMFiles\<close>

text \<open>
  \<^verbatim>\<open>filepath.Ext\<close>: from the end of the path back to the last separator, the suffix that
  starts at the first dot met; empty when there is none. The argument of \<^verbatim>\<open>ext_scan\<close>
  is the path reversed, and \<^verbatim>\<open>acc\<close> the characters already passed.
\<close>

fun ext_scan :: "string \<Rightarrow> string \<Rightarrow> string" where
  "ext_scan [] acc = []"
| "ext_scan (c # cs) acc =
     (if c = CHR ''/'' then []
      else if c = CHR ''.'' then c # acc
      else ext_scan cs (c # acc))"

definition Ext :: "string \<Rightarrow> string" where
  "Ext path = ext_scan (rev path) []"

text \<open>\<^verbatim>\<open>strings.Split\<close> with a separator of one byte: one more piece than separators.\<close>

fun split_acc :: "char \<Rightarrow> string \<Rightarrow> string \<Rightarrow> string list" where
  "split_acc sep cur [] = [cur]"
| "split_acc sep cur (c # cs) =
     (if c = sep then cur # split_acc sep [] cs else split_acc sep (cur @ [c]) cs)"

definition Split :: "string \<Rightarrow> char \<Rightarrow> string list" where
  "Split s sep = split_acc sep [] s"

text \<open>The callback given to \<^verbatim>\<open>filepath.Walk\<close>, on one entry.\<close>

definition visit :: "lib \<Rightarrow> Command \<Rightarrow> string \<times> error option \<Rightarrow> error option \<times> Command" where
  "visit L cmd entry =
     (case entry of (path, err) \<Rightarrow>
        (case err of
           Some e \<Rightarrow> (Some e, cmd)
         | None \<Rightarrow>
            if Ext path \<noteq> ''.'' @ TSMFileExtension L then (None, cmd)
            else
              (case Rel L (dataDir cmd) path of
                 Inl e \<Rightarrow> (Some e, cmd)
               | Inr relPath \<Rightarrow>
                  (let dirs = Split relPath CHR ''/'' in
                   if length dirs < 2 then (Some (StructuralError path), cmd)
                   else if dirs ! 0 = database cmd \<or> database cmd = []
                   then
                     if dirs ! 1 = retentionPolicy cmd \<or> retentionPolicy cmd = []
                     then
                       (let key = Join L (dirs ! 0) (dirs ! 1) in
                        (None, cmd\<lparr>tsmFiles := (tsmFiles cmd)(key \<mapsto>
                           (case tsmFiles cmd key of None \<Rightarrow> [] | Some ps \<Rightarrow> ps) @ [path])\<rparr>))
                     else (None, cmd)
                   else (None, cmd)))))"

text \<open>\<^verbatim>\<open>filepath.Walk\<close> stops at the first entry for which the callback returns an error.\<close>

fun walk :: "lib \<Rightarrow> (string \<times> error option) list \<Rightarrow> Command \<Rightarrow> error option \<times> Command" where
  "walk L [] cmd = (None, cmd)"
| "walk L (entry # entries) cmd =
     (case visit L cmd entry of
        (Some e, cmd') \<Rightarrow> (Some e, cmd')
      | (None, cmd') \<Rightarrow> walk L entries cmd')"

definition walkTSMFiles :: "lib \<Rightarrow> env \<Rightarrow> Command \<Rightarrow> error option \<times> Command" where
  "walkTSMFiles L E cmd = walk L (walk_entries E) cmd"

subsection \<open>parseSeriesFile\<close>

text \<open>
  The scanner yields the file's lines one by one and each becomes a key of
  \<^verbatim>\<open>cmd.series\<close>; when it stops with an error, the keys read so far stay in the map.
\<close>

definition parseSeriesFile :: "env \<Rightarrow> Command \<Rightarrow> world \<Rightarrow> error option \<times> Command" where
  "parseSeriesFile E cmd w =
     (case (if open_series_fails E then None else disk w (seriesFile cmd)) of
        None \<Rightarrow> (Some (OpenError (seriesFile cmd)), cmd)
      | Some f \<Rightarrow>
         (let lines = (case f of Text ls \<Rightarrow> ls
                       | Segment bs \<Rightarrow> binary_lines E bs
                       | Partial bs \<Rightarrow> binary_lines E bs);
              scanned = (case scan_fails_at E of None \<Rightarrow> lines | Some n \<Rightarrow> take n lines);
              cmd' = cmd\<lparr>series := fold (\<lambda>l m. m(l \<mapsto> True)) scanned (series cmd)\<rparr>
          in case scan_fails_at E of
               Some n \<Rightarrow> (Some ScanError, cmd')
             | None \<Rightarrow> (None, cmd')))"

subsection \<open>Run\<close>

text \<open>
  \<^verbatim>\<open>Run\<close> after the flags have been parsed into the command's fields (the flag set is
  created with \<^verbatim>\<open>flag.ExitOnError\<close>: a bad flag ends the process).
\<close>

definition Run :: "lib \<Rightarrow> env \<Rightarrow> Command \<Rightarrow> world \<Rightarrow> error option \<times> Command \<times> world" where
  "Run L E cmd w =
     (if seriesFile cmd = [] then (Some FlagError, cmd, w)
      else
        case walkTSMFiles L E cmd of
          (Some e, cmd1) \<Rightarrow> (Some e, cmd1, w)
        | (None, cmd1) \<Rightarrow>
           (case parseSeriesFile E cmd1 w of
              (Some e, cmd2) \<Rightarrow> (Some e, cmd2, w)
            | (None, cmd2) \<Rightarrow>
               (case deleteSeries L E cmd2 w of
                  (Some e, w') \<Rightarrow> (Some e, cmd2, w')
                | (None, w') \<Rightarrow> (None, cmd2, w'))))"

text \<open>\<^verbatim>\<open>NewCommand\<close> followed by the flags' values: both maps start empty.\<close>

definition NewCommand :: "string \<Rightarrow> string \<Rightarrow> string \<Rightarrow> string \<Rightarrow> bool \<Rightarrow> bool \<Rightarrow> Command" where
  "NewCommand dir db rp sf san v =
     \<lparr> dataDir = dir, database = db, retentionPolicy = rp, seriesFile = sf,
       sanitize = san, verbose = v, tsmFiles = Map.empty, series = Map.empty \<rparr>"

subsection \<open>Notions used by the statements\<close>

text \<open>
  The test of \<^verbatim>\<open>processTSMFile\<close> on one block: its series key, as \<^verbatim>\<open>formatSerieKey\<close>
  renders it, is a key of \<^verbatim>\<open>cmd.series\<close>.
\<close>

definition in_filter :: "lib \<Rightarrow> Command \<Rightarrow> block \<Rightarrow> bool" where
  "in_filter L cmd b =
     (case formatSerieKey L (fst (SeriesAndFieldFromCompositeKey L (blk_key b))) of
        Inl e \<Rightarrow> False
      | Inr serieKey \<Rightarrow> series cmd serieKey \<noteq> None)"


text \<open>
  The paths of the lines \<^verbatim>\<open>Processing data for TSM file '%s'\<close> of an output, in the
  order printed: the order in which the files were handed to \<^verbatim>\<open>processTSMFile\<close>.
\<close>

fun processed :: "out_line list \<Rightarrow> string list" where
  "processed [] = []"
| "processed (ProcessingFile p # ls) = p # processed ls"
| "processed (ProcessingUnit k # ls) = processed ls"
| "processed (DroppedTotal n # ls) = processed ls"

subsection \<open>An instance of the parameters, for concrete runs\<close>

text \<open>
  \<^verbatim>\<open>filepath.Rel\<close> and \<^verbatim>\<open>filepath.Join\<close> where no cleaning is needed: a base directory
  without a trailing separator, a target that is the base or a path below it as
  \<^verbatim>\<open>filepath.Walk\<close> builds it, and two elements that are single names.
\<close>

definition Rel_below :: "string \<Rightarrow> string \<Rightarrow> error + string" where
  "Rel_below basepath targpath =
     (if targpath = basepath then Inr ''.''
      else if prefix (basepath @ ''/'') targpath
      then Inr (drop (length basepath + 1) targpath)
      else Inl RelError)"

definition Join_names :: "string \<Rightarrow> string \<Rightarrow> string" where
  "Join_names a b = (if a = [] then b else if b = [] then a else a @ ''/'' @ b)"

text \<open>
  Modelled from the spec: \<^verbatim>\<open>tsm1.SeriesAndFieldFromCompositeKey\<close> is not among the
  sources. A composite key is ``an encoded key combining a series key and a field
  name''; the instance takes the series key to be what precedes the first occurrence of
  the engine's separator \<^verbatim>\<open>#!~#\<close> and the field name to be what follows it, and the
  whole key to be the series key when the separator is absent.
\<close>

fun series_part :: "string \<Rightarrow> string" where
  "series_part [] = []"
| "series_part (c # cs) =
     (if prefix ''#!~#'' (c # cs) then [] else c # series_part cs)"

fun field_part :: "string \<Rightarrow> string" where
  "field_part [] = []"
| "field_part (c # cs) =
     (if prefix ''#!~#'' (c # cs) then drop 4 (c # cs) else field_part cs)"

definition composite_split :: "string \<Rightarrow> string \<times> string" where
  "composite_split k = (series_part k, field_part k)"

text \<open>
  Modelled from the spec: \<^verbatim>\<open>models.ParseKey\<close> is not among the sources. It ``splits a
  composite key into (measurement, ordered tag set)'', the series key reading
  \<^verbatim>\<open>measurement,tag1=value1,tag2=value2\<close>: the measurement is what precedes the first
  comma, and each further comma-separated piece is a tag, split at its first equals
  sign. Escaped separators are not treated.
\<close>

definition parse_tag :: "string \<Rightarrow> Tag" where
  "parse_tag t = \<lparr> Key = takeWhile (\<lambda>c. c \<noteq> CHR ''='') t,
                  Value = drop 1 (dropWhile (\<lambda>c. c \<noteq> CHR ''='') t) \<rparr>"

definition parse_key :: "string \<Rightarrow> string \<times> Tag list" where
  "parse_key s =
     (case Split s CHR '','' of
        [] \<Rightarrow> ([], [])
      | m # ts \<Rightarrow> (m, map parse_tag ts))"

definition example_lib :: lib where
  "example_lib = \<lparr> TSMFileExtension = ''tsm'', Rel = Rel_below, Join = Join_names,
     SeriesAndFieldFromCompositeKey = composite_split, ParseKey = parse_key \<rparr>"

text \<open>A run in which nothing outside the program fails.\<close>

definition quiet_env :: "(string \<times> error option) list \<Rightarrow> string list \<Rightarrow> env" where
  "quiet_env entries keys =
     \<lparr> walk_entries = entries, open_series_fails = False, scan_fails_at = None,
       binary_lines = (\<lambda>bs. []), faults_of = (\<lambda>p. no_faults), range_order = keys \<rparr>"

definition mk_block :: "string \<Rightarrow> block" where
  "mk_block k = \<lparr> blk_key = k, blk_minTime = 0, blk_maxTime = 10, blk_data = ''x'' \<rparr>"

text \<open>
  The scenario of the specification: one TSM file of the database \<^verbatim>\<open>mydb\<close> with three
  blocks, and a series file that lists \<^verbatim>\<open>cpu,host=a\<close>.
\<close>

definition ex_file :: string where
  "ex_file = ''/data/mydb/autogen/1/a.tsm''"

definition ex_blocks :: "block list" where
  "ex_blocks = [mk_block ''cpu,host=a#!~#value'', mk_block ''cpu,host=b#!~#value'',
                mk_block ''mem,host=a#!~#value'']"

definition ex_world :: world where
  "ex_world = \<lparr> disk = [ex_file \<mapsto> Segment ex_blocks, ''/tmp/series'' \<mapsto> Text [''cpu,host=a'']],
                Stdout = [] \<rparr>"

definition ex_flags :: Command where
  "ex_flags = NewCommand ''/data'' ''mydb'' [] ''/tmp/series'' False False"

definition ex_cmd :: Command where
  "ex_cmd = ex_flags\<lparr>tsmFiles := [''mydb/autogen'' \<mapsto> [ex_file]],
                     series := [''cpu,host=a'' \<mapsto> True]\<rparr>"


text \<open>A data directory with a TSM file directly below it.\<close>

definition ex_shallow_env :: env where
  "ex_shallow_env = quiet_env [(''/data'', None), (''/data/a.tsm'', None)] []"

text \<open>A second file of the same unit, and a series without tags.\<close>

definition ex_file_b :: string where
  "ex_file_b = ''/data/mydb/autogen/1/b.tsm''"

definition ex_tagless_cmd :: Command where
  "ex_tagless_cmd = ex_flags\<lparr>series := [''cpu'' \<mapsto> True]\<rparr>"

definition ex_tagless_world :: world where
  "ex_tagless_world = \<lparr> disk = [ex_file \<mapsto> Segment [mk_block ''cpu#!~#value'']], Stdout = [] \<rparr>"

text \<open>
  A unit of two files of which the first is not a TSM file; a TSM file whose keys are
  no composite keys; and a series whose measurement holds the control character 0x01,
  listed in the series file of a run with \<^verbatim>\<open>-sanitize\<close>.
\<close>

definition ex_world2 :: world where
  "ex_world2 = \<lparr> disk = [ex_file \<mapsto> Text [''not a TSM file''], ex_file_b \<mapsto> Segment ex_blocks,
                         ''/tmp/series'' \<mapsto> Text [''cpu,host=a'']],
                 Stdout = [] \<rparr>"

definition ex_env2 :: env where
  "ex_env2 = quiet_env [(''/data'', None), (''/data/mydb'', None), (''/data/mydb/autogen'', None),
                        (''/data/mydb/autogen/1'', None), (ex_file, None), (ex_file_b, None)]
                       [''mydb/autogen'']"

definition ex_malformed_world :: world where
  "ex_malformed_world = \<lparr> disk = [ex_file \<mapsto> Segment [mk_block [], mk_block ''=,='']],
                          Stdout = [] \<rparr>"



section \<open>Properties\<close>

subsection \<open>The rewrite of one file\<close>

lemma formatSerieKey_Inr: "\<exists>k. formatSerieKey L s = Inr k"
  by (simp add: formatSerieKey_def split: prod.splits)

text \<open>Without a failing read or write, the loop is a filter and a count.\<close>

lemma iterate_blocks_no_faults:
  "read_fails_at ft = None \<Longrightarrow> write_fails_at ft = None \<Longrightarrow>
   iterate_blocks L ft cmd i bs out n =
     (None, out @ filter (\<lambda>b. \<not> in_filter L cmd b) bs,
      n + length (filter (in_filter L cmd) bs))"
proof (induction bs arbitrary: i out n)
  case Nil
  then show ?case by simp
next
  case (Cons b bs)
  obtain k where k: "formatSerieKey L (fst (SeriesAndFieldFromCompositeKey L (blk_key b))) = Inr k"
    using formatSerieKey_Inr by blast
  show ?case
    using Cons k by (simp add: in_filter_def)
qed

text \<open>A failing read inside the range of the loop makes the loop return an error.\<close>

lemma iterate_blocks_read_fault:
  "read_fails_at ft = Some j \<Longrightarrow> i \<le> j \<Longrightarrow> j < i + length bs \<Longrightarrow>
   fst (iterate_blocks L ft cmd i bs out n) \<noteq> None"
proof (induction bs arbitrary: i out n)
  case Nil
  then show ?case by simp
next
  case (Cons b bs)
  obtain k where k: "formatSerieKey L (fst (SeriesAndFieldFromCompositeKey L (blk_key b))) = Inr k"
    using formatSerieKey_Inr by blast
  show ?case
  proof (cases "j = i")
    case True
    with Cons.prems show ?thesis by simp
  next
    case False
    with Cons.prems have "Suc i \<le> j" "j < Suc i + length bs" by simp_all
    with Cons.IH Cons.prems(1) have "\<And>out n. fst (iterate_blocks L ft cmd (Suc i) bs out n) \<noteq> None"
      by blast
    with k show ?thesis by simp
  qed
qed

text \<open>So does a failing write of a block that the filter keeps.\<close>

lemma iterate_blocks_write_fault:
  "write_fails_at ft = Some j \<Longrightarrow> i \<le> j \<Longrightarrow> j < i + length bs \<Longrightarrow>
   \<not> in_filter L cmd (bs ! (j - i)) \<Longrightarrow>
   fst (iterate_blocks L ft cmd i bs out n) \<noteq> None"
proof (induction bs arbitrary: i out n)
  case Nil
  then show ?case by simp
next
  case (Cons b bs)
  obtain k where k: "formatSerieKey L (fst (SeriesAndFieldFromCompositeKey L (blk_key b))) = Inr k"
    using formatSerieKey_Inr by blast
  show ?case
  proof (cases "j = i")
    case True
    with Cons.prems(4) have "\<not> in_filter L cmd b" by simp
    with k have "series cmd k = None" by (simp add: in_filter_def)
    with True k Cons.prems(1) show ?thesis by simp
  next
    case False
    with Cons.prems have le: "Suc i \<le> j" "j < Suc i + length bs" by simp_all
    from False Cons.prems(2) have "(b # bs) ! (j - i) = bs ! (j - Suc i)"
      by (simp add: nth_Cons')
    with Cons.prems(4) have "\<not> in_filter L cmd (bs ! (j - Suc i))" by simp
    with Cons.IH Cons.prems(1) le
    have "\<And>out n. fst (iterate_blocks L ft cmd (Suc i) bs out n) \<noteq> None"
      by blast
    with k show ?thesis by simp
  qed
qed

text \<open>The whole rewrite when nothing fails.\<close>

lemma processTSMFile_no_faults:
  assumes "disk w path = Some (Segment bs)"
  shows "processTSMFile L no_faults cmd path w =
    (None, w\<lparr>disk := ((RemoveAll (path @ ''.rewriting.tmp.idx.tmp'')
                         (RemoveAll (path @ ''.rewriting.tmp'') (disk w)))
                       (path @ ''.rewriting.tmp'' := None))
                      (path \<mapsto> Segment (filter (\<lambda>b. \<not> in_filter L cmd b) bs)),
             Stdout := Stdout w @ [DroppedTotal (length (filter (in_filter L cmd) bs))]\<rparr>)"
  using assms
  by (simp add: processTSMFile_def no_faults_def Let_def iterate_blocks_no_faults)

text \<open>Either the rewrite returns nil or the file at the path is what it was.\<close>

lemma processTSMFile_nil_or_kept:
  "fst (processTSMFile L ft cmd path w) = None \<or>
   disk (snd (processTSMFile L ft cmd path w)) path = disk w path"
  by (simp add: processTSMFile_def Let_def RemoveAll_def prefix_def
           split: option.split content.split prod.split)

text \<open>A rewrite that returns nil has met none of the faults outside the loop.\<close>

lemma processTSMFile_nil_no_fault:
  "fst (processTSMFile L ft cmd path w) = None \<longrightarrow>
     \<not> open_fails ft \<and> \<not> reader_fails ft \<and> (\<exists>bs. disk w path = Some (Segment bs)) \<and>
     \<not> remove_fails ft \<and> \<not> remove_idx_fails ft \<and> \<not> create_fails ft \<and>
     \<not> writer_fails ft \<and> \<not> index_fails ft \<and> \<not> close_fails ft \<and> \<not> rename_fails ft"
  by (simp add: processTSMFile_def Let_def split: option.split content.split prod.split)

text \<open>Nor one inside it.\<close>

lemma processTSMFile_loop_fault:
  assumes "disk w path = Some (Segment bs)" and "j < length bs"
    and "read_fails_at ft = Some j \<or> (write_fails_at ft = Some j \<and> \<not> in_filter L cmd (bs ! j))"
  shows "fst (processTSMFile L ft cmd path w) \<noteq> None"
proof -
  have "fst (iterate_blocks L ft cmd 0 bs [] 0) \<noteq> None"
    using assms(2,3) iterate_blocks_read_fault [of ft j 0 bs L cmd "[]" 0]
      iterate_blocks_write_fault [of ft j 0 bs L cmd "[]" 0]
    by auto
  then obtain e out n where "iterate_blocks L ft cmd 0 bs [] 0 = (Some e, out, n)"
    by (cases "iterate_blocks L ft cmd 0 bs [] 0") auto
  with assms(1) show ?thesis
    by (simp add: processTSMFile_def Let_def)
qed


text \<open>
  C1. When nothing outside the program fails, the rewrite of a TSM file returns nil and
  leaves at the file's path a TSM file whose blocks are exactly the blocks of the
  original, in their order, whose series key is not in the filter set; it prints the
  number of blocks whose series key is in the filter set as the count of dropped blocks;
  and every block of the original is either kept once or counted once.
\<close>

theorem C1_rewrite_keeps_exactly_unfiltered:
  assumes "disk w path = Some (Segment bs)"
  shows "fst (processTSMFile L no_faults cmd path w) = None
    \<and> disk (snd (processTSMFile L no_faults cmd path w)) path =
        Some (Segment (filter (\<lambda>b. \<not> in_filter L cmd b) bs))
    \<and> Stdout (snd (processTSMFile L no_faults cmd path w)) =
        Stdout w @ [DroppedTotal (length (filter (in_filter L cmd) bs))]
    \<and> mset (filter (\<lambda>b. \<not> in_filter L cmd b) bs) + mset (filter (in_filter L cmd) bs) = mset bs"
proof -
  have "mset (filter (\<lambda>b. \<not> in_filter L cmd b) bs) + mset (filter (in_filter L cmd) bs) = mset bs"
    by (induction bs) simp_all
  then show ?thesis
    using assms by (simp add: processTSMFile_no_faults)
qed

lemma ex_in_filter: "map (in_filter example_lib ex_cmd) ex_blocks = [True, False, False]"
  by (simp add: in_filter_def ex_blocks_def mk_block_def example_lib_def composite_split_def
       formatSerieKey_def parse_key_def Split_def parse_tag_def ex_cmd_def)

lemma ex_disk: "disk ex_world ex_file = Some (Segment ex_blocks)"
  by (simp add: ex_world_def ex_file_def)

theorem C1_witness:
  "disk ex_world ex_file = Some (Segment ex_blocks)
   \<and> fst (processTSMFile example_lib no_faults ex_cmd ex_file ex_world) = None
   \<and> disk (snd (processTSMFile example_lib no_faults ex_cmd ex_file ex_world)) ex_file =
       Some (Segment [mk_block ''cpu,host=b#!~#value'', mk_block ''mem,host=a#!~#value''])
   \<and> Stdout (snd (processTSMFile example_lib no_faults ex_cmd ex_file ex_world)) =
       [DroppedTotal 1]"
proof -
  have f: "filter (in_filter example_lib ex_cmd) ex_blocks = [mk_block ''cpu,host=a#!~#value'']"
    and g: "filter (\<lambda>b. \<not> in_filter example_lib ex_cmd b) ex_blocks =
      [mk_block ''cpu,host=b#!~#value'', mk_block ''mem,host=a#!~#value'']"
    using ex_in_filter by (simp_all add: ex_blocks_def)
  have s: "Stdout ex_world = []" by (simp add: ex_world_def)
  show ?thesis
    using C1_rewrite_keeps_exactly_unfiltered [OF ex_disk, of example_lib ex_cmd] ex_disk
    by (simp add: f g s)
qed

text \<open>
  C2. Whenever the rewrite of a file returns an error, the file at the path is what it
  was before the call. It returns an error whenever a step before the rename fails:
  opening the input or reading it as a TSM file, removing the old temporary files,
  creating the temporary file or its writer, finalizing the index, closing the writer
  (and also when the rename itself fails); and whenever, inside the loop, the read of a
  block fails or the write of a block that is kept fails. So the file is replaced only
  after WriteIndex and Close have succeeded.
\<close>

theorem C2_error_leaves_original:
  "(fst (processTSMFile L ft cmd path w) \<noteq> None \<longrightarrow>
      disk (snd (processTSMFile L ft cmd path w)) path = disk w path)
   \<and> (open_fails ft \<or> reader_fails ft \<or> (\<forall>bs. disk w path \<noteq> Some (Segment bs)) \<or>
      remove_fails ft \<or> remove_idx_fails ft \<or> create_fails ft \<or> writer_fails ft \<or>
      index_fails ft \<or> close_fails ft \<or> rename_fails ft \<longrightarrow>
      fst (processTSMFile L ft cmd path w) \<noteq> None)
   \<and> (disk w path = Some (Segment bs) \<and> j < length bs \<and>
      (read_fails_at ft = Some j \<or> (write_fails_at ft = Some j \<and> \<not> in_filter L cmd (bs ! j))) \<longrightarrow>
      fst (processTSMFile L ft cmd path w) \<noteq> None)"
proof (intro conjI impI)
  assume "fst (processTSMFile L ft cmd path w) \<noteq> None"
  with processTSMFile_nil_or_kept [of L ft cmd path w]
  show "disk (snd (processTSMFile L ft cmd path w)) path = disk w path"
    by blast
next
  assume "open_fails ft \<or> reader_fails ft \<or> (\<forall>bs. disk w path \<noteq> Some (Segment bs)) \<or>
      remove_fails ft \<or> remove_idx_fails ft \<or> create_fails ft \<or> writer_fails ft \<or>
      index_fails ft \<or> close_fails ft \<or> rename_fails ft"
  with processTSMFile_nil_no_fault [of L ft cmd path w]
  show "fst (processTSMFile L ft cmd path w) \<noteq> None"
    by blast
next
  assume "disk w path = Some (Segment bs) \<and> j < length bs \<and>
      (read_fails_at ft = Some j \<or> (write_fails_at ft = Some j \<and> \<not> in_filter L cmd (bs ! j)))"
  then show "fst (processTSMFile L ft cmd path w) \<noteq> None"
    using processTSMFile_loop_fault [of w path bs j ft L cmd] by blast
qed

theorem C2_witness:
  "close_fails (no_faults\<lparr>write_fails_at := Some 1, close_fails := True\<rparr>)
   \<and> disk ex_world ex_file = Some (Segment ex_blocks) \<and> 1 < length ex_blocks
   \<and> write_fails_at (no_faults\<lparr>write_fails_at := Some 1, close_fails := True\<rparr>) = Some 1
   \<and> \<not> in_filter example_lib ex_cmd (ex_blocks ! 1)
   \<and> fst (processTSMFile example_lib (no_faults\<lparr>write_fails_at := Some 1, close_fails := True\<rparr>)
          ex_cmd ex_file ex_world) \<noteq> None
   \<and> disk (snd (processTSMFile example_lib
          (no_faults\<lparr>write_fails_at := Some 1, close_fails := True\<rparr>) ex_cmd ex_file ex_world))
        ex_file = Some (Segment ex_blocks)"
proof -
  have k: "\<not> in_filter example_lib ex_cmd (ex_blocks ! 1)"
    using ex_in_filter by (simp add: ex_blocks_def)
  have n: "1 < length ex_blocks" by (simp add: ex_blocks_def)
  show ?thesis
    using C2_error_leaves_original [of example_lib
        "no_faults\<lparr>write_fails_at := Some 1, close_fails := True\<rparr>" ex_cmd ex_file ex_world
        ex_blocks 1] ex_disk k n
    by simp
qed


subsection \<open>The walk\<close>

text \<open>The callback changes nothing of the command but \<^verbatim>\<open>tsmFiles\<close>.\<close>

lemma visit_fields:
  "dataDir (snd (visit L cmd entry)) = dataDir cmd"
  "database (snd (visit L cmd entry)) = database cmd"
  "retentionPolicy (snd (visit L cmd entry)) = retentionPolicy cmd"
  "seriesFile (snd (visit L cmd entry)) = seriesFile cmd"
  "series (snd (visit L cmd entry)) = series cmd"
  by (simp_all add: visit_def Let_def split: prod.split option.split sum.split)

lemma walk_fields:
  "dataDir (snd (walk L es cmd)) = dataDir cmd
   \<and> database (snd (walk L es cmd)) = database cmd
   \<and> retentionPolicy (snd (walk L es cmd)) = retentionPolicy cmd
   \<and> seriesFile (snd (walk L es cmd)) = seriesFile cmd
   \<and> series (snd (walk L es cmd)) = series cmd"
proof (induction es arbitrary: cmd)
  case Nil
  show ?case by simp
next
  case (Cons entry es)
  obtain r c where v: "visit L cmd entry = (r, c)" by (cases "visit L cmd entry")
  have c: "dataDir c = dataDir cmd" "database c = database cmd"
    "retentionPolicy c = retentionPolicy cmd" "seriesFile c = seriesFile cmd"
    "series c = series cmd"
    using visit_fields [of L cmd entry] v by simp_all
  show ?case
  proof (cases r)
    case None
    with v c Cons.IH [of c] show ?thesis by simp
  next
    case (Some e)
    with v c show ?thesis by simp
  qed
qed

text \<open>Whether the callback fails on an entry depends on the data directory alone.\<close>

lemma visit_fails_cong:
  "dataDir c = dataDir cmd \<Longrightarrow> fst (visit L c entry) = fst (visit L cmd entry)"
  by (simp add: visit_def Let_def split: prod.split option.split sum.split)

text \<open>The walk fails exactly when the callback fails on one of the entries.\<close>

lemma walk_fails_iff:
  "fst (walk L es cmd) \<noteq> None \<longleftrightarrow> (\<exists>entry \<in> set es. fst (visit L cmd entry) \<noteq> None)"
proof (induction es arbitrary: cmd)
  case Nil
  show ?case by simp
next
  case (Cons entry es)
  obtain r c where v: "visit L cmd entry = (r, c)" by (cases "visit L cmd entry")
  show ?case
  proof (cases r)
    case (Some e)
    with v show ?thesis by simp
  next
    case None
    have "dataDir c = dataDir cmd"
      using visit_fields(1) [of L cmd entry] v by simp
    then have "\<And>x. fst (visit L c x) = fst (visit L cmd x)"
      by (rule visit_fails_cong)
    with None v Cons.IH [of c] show ?thesis by simp
  qed
qed

lemma visit_walk_error: "fst (visit L cmd (p, Some e)) \<noteq> None"
  by (simp add: visit_def)

lemma visit_shallow:
  "Ext p = ''.'' @ TSMFileExtension L \<Longrightarrow> Rel L (dataDir cmd) p = Inr r \<Longrightarrow>
   length (Split r CHR ''/'') < 2 \<Longrightarrow> fst (visit L cmd (p, None)) \<noteq> None"
  by (simp add: visit_def Let_def)





subsection \<open>Run\<close>

lemma parseSeriesFile_fails_iff:
  "fst (parseSeriesFile E cmd w) \<noteq> None \<longleftrightarrow>
     open_series_fails E \<or> disk w (seriesFile cmd) = None \<or> scan_fails_at E \<noteq> None"
  by (simp add: parseSeriesFile_def Let_def split: option.split)

text \<open>An error of the walk or of the loading of the series file ends the run at once.\<close>

lemma Run_setup_failure:
  assumes "fst (walkTSMFiles L E cmd) \<noteq> None \<or>
           fst (parseSeriesFile E (snd (walkTSMFiles L E cmd)) w) \<noteq> None"
  shows "fst (Run L E cmd w) \<noteq> None \<and> snd (snd (Run L E cmd w)) = w"
proof -
  obtain r1 c1 where w1: "walkTSMFiles L E cmd = (r1, c1)"
    by (cases "walkTSMFiles L E cmd")
  obtain r2 c2 where p2: "parseSeriesFile E c1 w = (r2, c2)"
    by (cases "parseSeriesFile E c1 w")
  from assms w1 p2 have "r1 \<noteq> None \<or> r2 \<noteq> None" by simp
  with w1 p2 show ?thesis
    by (cases r1; cases r2) (simp_all add: Run_def)
qed

text \<open>
  C3. If the walk of the data directory fails (an entry that comes with an I/O error, a
  TSM file whose path relative to the data directory has fewer than two components, or
  any other error of the callback) or the series file cannot be opened or read, then
  Run returns an error and the world is what it was: no file has been created,
  rewritten, renamed or removed, and nothing has been printed.
\<close>

theorem C3_failed_setup_touches_nothing:
  assumes "(\<exists>p e. (p, Some e) \<in> set (walk_entries E))
     \<or> (\<exists>p r. (p, None) \<in> set (walk_entries E) \<and> Ext p = ''.'' @ TSMFileExtension L \<and>
              Rel L (dataDir cmd) p = Inr r \<and> length (Split r CHR ''/'') < 2)
     \<or> fst (walkTSMFiles L E cmd) \<noteq> None
     \<or> open_series_fails E \<or> disk w (seriesFile cmd) = None \<or> scan_fails_at E \<noteq> None"
  shows "fst (Run L E cmd w) \<noteq> None \<and> snd (snd (Run L E cmd w)) = w"
proof -
  have io: "fst (walkTSMFiles L E cmd) \<noteq> None" if "(p, Some e) \<in> set (walk_entries E)" for p e
    using that visit_walk_error [of L cmd p e] walk_fails_iff [of L "walk_entries E" cmd]
    by (auto simp: walkTSMFiles_def)
  have shallow: "fst (walkTSMFiles L E cmd) \<noteq> None"
    if "(p, None) \<in> set (walk_entries E)" "Ext p = ''.'' @ TSMFileExtension L"
       "Rel L (dataDir cmd) p = Inr r" "length (Split r CHR ''/'') < 2" for p r
    using that visit_shallow [of p L cmd r] walk_fails_iff [of L "walk_entries E" cmd]
    by (auto simp: walkTSMFiles_def)
  have "seriesFile (snd (walkTSMFiles L E cmd)) = seriesFile cmd"
    using walk_fields [of L "walk_entries E" cmd] by (simp add: walkTSMFiles_def)
  then have load: "fst (parseSeriesFile E (snd (walkTSMFiles L E cmd)) w) \<noteq> None"
    if "open_series_fails E \<or> disk w (seriesFile cmd) = None \<or> scan_fails_at E \<noteq> None"
    using that parseSeriesFile_fails_iff [of E "snd (walkTSMFiles L E cmd)" w] by simp
  from assms io shallow load
  have "fst (walkTSMFiles L E cmd) \<noteq> None \<or>
        fst (parseSeriesFile E (snd (walkTSMFiles L E cmd)) w) \<noteq> None"
    by blast
  then show ?thesis by (rule Run_setup_failure)
qed

lemma ex_shallow_entry:
  "(''/data/a.tsm'', None) \<in> set (walk_entries ex_shallow_env)
   \<and> Ext ''/data/a.tsm'' = ''.'' @ TSMFileExtension example_lib
   \<and> Rel example_lib (dataDir ex_flags) ''/data/a.tsm'' = Inr ''a.tsm''
   \<and> length (Split ''a.tsm'' CHR ''/'') < 2"
  by (simp add: ex_shallow_env_def quiet_env_def Ext_def example_lib_def Rel_below_def
        ex_flags_def NewCommand_def Split_def)

theorem C3_witness:
  "(''/data/a.tsm'', None) \<in> set (walk_entries ex_shallow_env)
   \<and> Ext ''/data/a.tsm'' = ''.'' @ TSMFileExtension example_lib
   \<and> Rel example_lib (dataDir ex_flags) ''/data/a.tsm'' = Inr ''a.tsm''
   \<and> length (Split ''a.tsm'' CHR ''/'') < 2
   \<and> fst (Run example_lib ex_shallow_env ex_flags ex_world) \<noteq> None
   \<and> snd (snd (Run example_lib ex_shallow_env ex_flags ex_world)) = ex_world"
proof -
  have "\<exists>p r. (p, None) \<in> set (walk_entries ex_shallow_env) \<and>
          Ext p = ''.'' @ TSMFileExtension example_lib \<and>
          Rel example_lib (dataDir ex_flags) p = Inr r \<and> length (Split r CHR ''/'') < 2"
    using ex_shallow_entry by blast
  then show ?thesis
    using C3_failed_setup_touches_nothing [of ex_shallow_env example_lib ex_flags ex_world]
      ex_shallow_entry
    by blast
qed






subsection \<open>Rewriting twice, the order of the files, series without tags\<close>

lemma filter_not_in_filter:
  "filter (in_filter L cmd) (filter (\<lambda>b. \<not> in_filter L cmd b) bs) = []"
  "filter (\<lambda>b. \<not> in_filter L cmd b) (filter (\<lambda>b. \<not> in_filter L cmd b) bs) =
     filter (\<lambda>b. \<not> in_filter L cmd b) bs"
  by (induction bs) simp_all

text \<open>
  C4. When nothing outside the program fails, rewriting a file that has just been
  rewritten with the same filter set returns nil, prints a count of zero dropped blocks,
  and leaves the disk, and so the blocks of the file, as the first rewrite left it.
\<close>

theorem C4_rewrite_idempotent:
  assumes "disk w path = Some (Segment bs)"
  shows "(let w1 = snd (processTSMFile L no_faults cmd path w);
              r2 = processTSMFile L no_faults cmd path w1
          in fst r2 = None \<and> Stdout (snd r2) = Stdout w1 @ [DroppedTotal 0] \<and>
             disk (snd r2) = disk w1 \<and>
             disk w1 path = Some (Segment (filter (\<lambda>b. \<not> in_filter L cmd b) bs)))"
proof -
  define kept where "kept = filter (\<lambda>b. \<not> in_filter L cmd b) bs"
  define w1 where "w1 = snd (processTSMFile L no_faults cmd path w)"
  have d1: "disk w1 = ((RemoveAll (path @ ''.rewriting.tmp.idx.tmp'')
                         (RemoveAll (path @ ''.rewriting.tmp'') (disk w)))
                       (path @ ''.rewriting.tmp'' := None))
                      (path \<mapsto> Segment kept)"
    using assms by (simp add: w1_def kept_def processTSMFile_no_faults)
  then have p1: "disk w1 path = Some (Segment kept)" by simp
  have r2: "processTSMFile L no_faults cmd path w1 =
    (None, w1\<lparr>disk := ((RemoveAll (path @ ''.rewriting.tmp.idx.tmp'')
                         (RemoveAll (path @ ''.rewriting.tmp'') (disk w1)))
                       (path @ ''.rewriting.tmp'' := None))
                      (path \<mapsto> Segment kept),
             Stdout := Stdout w1 @ [DroppedTotal 0]\<rparr>)"
    using processTSMFile_no_faults [OF p1, of L cmd]
    by (simp add: kept_def filter_not_in_filter)
  have same: "((RemoveAll (path @ ''.rewriting.tmp.idx.tmp'')
                         (RemoveAll (path @ ''.rewriting.tmp'') (disk w1)))
                       (path @ ''.rewriting.tmp'' := None))
                      (path \<mapsto> Segment kept) = disk w1"
    unfolding d1 by (rule ext) (simp add: RemoveAll_def)
  show ?thesis
    using r2 same p1 by (simp add: Let_def w1_def [symmetric] kept_def [symmetric])
qed

theorem C4_witness:
  "disk ex_world ex_file = Some (Segment ex_blocks)
   \<and> fst (processTSMFile example_lib no_faults ex_cmd ex_file
            (snd (processTSMFile example_lib no_faults ex_cmd ex_file ex_world))) = None
   \<and> Stdout (snd (processTSMFile example_lib no_faults ex_cmd ex_file
            (snd (processTSMFile example_lib no_faults ex_cmd ex_file ex_world)))) =
       [DroppedTotal 1, DroppedTotal 0]
   \<and> disk (snd (processTSMFile example_lib no_faults ex_cmd ex_file
            (snd (processTSMFile example_lib no_faults ex_cmd ex_file ex_world)))) ex_file =
       Some (Segment [mk_block ''cpu,host=b#!~#value'', mk_block ''mem,host=a#!~#value''])"
proof -
  have f: "filter (in_filter example_lib ex_cmd) ex_blocks = [mk_block ''cpu,host=a#!~#value'']"
    and g: "filter (\<lambda>b. \<not> in_filter example_lib ex_cmd b) ex_blocks =
      [mk_block ''cpu,host=b#!~#value'', mk_block ''mem,host=a#!~#value'']"
    using ex_in_filter by (simp_all add: ex_blocks_def)
  have "Stdout ex_world = []" by (simp add: ex_world_def)
  then have s: "Stdout (snd (processTSMFile example_lib no_faults ex_cmd ex_file ex_world)) =
      [DroppedTotal 1]"
    unfolding processTSMFile_no_faults [OF ex_disk] by (simp add: f)
  show ?thesis
    using C4_rewrite_idempotent [OF ex_disk, of example_lib ex_cmd] ex_disk
    by (simp add: Let_def g s)
qed

text \<open>The rewrite of a file prints no line that names a file.\<close>

lemma processed_append: "processed (xs @ ys) = processed xs @ processed ys"
  by (induction xs rule: processed.induct) simp_all

lemma processed_processTSMFile:
  "processed (Stdout (snd (processTSMFile L ft cmd path w))) = processed (Stdout w)"
  by (simp add: processTSMFile_def Let_def processed_append
           split: option.split content.split prod.split)

lemma processed_process_files:
  "processed (Stdout (process_files L fo cmd ps w)) = processed (Stdout w) @ ps"
proof (induction ps arbitrary: w)
  case Nil
  show ?case by simp
next
  case (Cons p ps)
  show ?case
    by (simp add: Let_def Cons.IH processed_processTSMFile processed_append)
qed

text \<open>The loop of \<^verbatim>\<open>deleteFromTSMFiles\<close> threads the world through the rewrites.\<close>

lemma process_files_fold:
  "process_files L fo cmd ps w =
     fold (\<lambda>p v. snd (processTSMFile L (fo p) cmd p (v\<lparr>Stdout := Stdout v @ [ProcessingFile p]\<rparr>)))
       ps w"
  by (induction ps arbitrary: w) (simp_all add: Let_def)

lemma sort_permutation: "mset (ys :: string list) = mset xs \<Longrightarrow> sort ys = sort xs"
  by (rule properties_for_sort) simp_all

text \<open>
  C9. The files of a deletion unit are rewritten in the order of the sorted list of
  their paths, whatever the order in which the walk recorded them: the world that
  \<^verbatim>\<open>deleteFromTSMFiles\<close> leaves is the one reached by taking the paths of the sorted
  list one after the other, from its head, and for each printing its line and then
  running \<^verbatim>\<open>processTSMFile\<close> on the world the paths before it have left. The sorted
  list is ordered, has the elements of the unit, and of two positions in it that hold
  paths \<^verbatim>\<open>a < b\<close>, the one of \<^verbatim>\<open>a\<close> comes first; a unit recorded in another order gives
  the same result; and the lines printed for the files name them in that order.
\<close>

theorem C9_files_processed_in_sorted_order:
  "deleteFromTSMFiles L fo cmd files w =
     (None,
      fold (\<lambda>p v. snd (processTSMFile L (fo p) cmd p
                         (v\<lparr>Stdout := Stdout v @ [ProcessingFile p]\<rparr>)))
        (sort files) w)
   \<and> sorted (sort files) \<and> mset (sort files) = mset files
   \<and> (\<forall>i j. i < length files \<and> j < length files \<and> sort files ! i < sort files ! j
        \<longrightarrow> i < j)
   \<and> (mset files' = mset files \<longrightarrow>
        deleteFromTSMFiles L fo cmd files' w = deleteFromTSMFiles L fo cmd files w)
   \<and> processed (Stdout (snd (deleteFromTSMFiles L fo cmd files w))) =
       processed (Stdout w) @ sort files"
proof (intro conjI allI impI)
  show "deleteFromTSMFiles L fo cmd files w =
     (None,
      fold (\<lambda>p v. snd (processTSMFile L (fo p) cmd p
                         (v\<lparr>Stdout := Stdout v @ [ProcessingFile p]\<rparr>)))
        (sort files) w)"
    by (simp add: deleteFromTSMFiles_def process_files_fold)
  show "sorted (sort files)" by simp
  show "mset (sort files) = mset files" by simp
  show "processed (Stdout (snd (deleteFromTSMFiles L fo cmd files w))) =
     processed (Stdout w) @ sort files"
    by (simp add: deleteFromTSMFiles_def processed_process_files)
next
  assume "mset files' = mset files"
  then have "sort files' = sort files" by (rule sort_permutation)
  then show "deleteFromTSMFiles L fo cmd files' w = deleteFromTSMFiles L fo cmd files w"
    by (simp add: deleteFromTSMFiles_def)
next
  fix i j
  assume a: "i < length files \<and> j < length files \<and> sort files ! i < sort files ! j"
  show "i < j"
  proof (rule ccontr)
    assume "\<not> i < j"
    then have "j \<le> i" by simp
    moreover have "sorted (sort files)" by simp
    moreover from a have "i < length (sort files)" by simp
    ultimately have "sort files ! j \<le> sort files ! i"
      by (rule_tac sorted_nth_mono)
    with a show False using leD by blast
  qed
qed

lemma ex_sort: "sort [ex_file_b, ex_file] = [ex_file, ex_file_b]"
  by (simp add: ex_file_def ex_file_b_def)

lemma ex_unit_rewritten:
  "disk (fold (\<lambda>p v. snd (processTSMFile example_lib no_faults ex_cmd p
                          (v\<lparr>Stdout := Stdout v @ [ProcessingFile p]\<rparr>)))
          [ex_file, ex_file_b] ex_world2) ex_file_b =
     Some (Segment [mk_block ''cpu,host=b#!~#value'', mk_block ''mem,host=a#!~#value''])"
  by code_simp

theorem C9_witness:
  "(0::nat) < length [ex_file_b, ex_file] \<and> (1::nat) < length [ex_file_b, ex_file]
   \<and> sort [ex_file_b, ex_file] ! 0 < sort [ex_file_b, ex_file] ! 1
   \<and> mset [ex_file, ex_file_b] = mset [ex_file_b, ex_file]
   \<and> deleteFromTSMFiles example_lib (\<lambda>p. no_faults) ex_cmd [ex_file_b, ex_file] ex_world2 =
       (None,
        fold (\<lambda>p v. snd (processTSMFile example_lib no_faults ex_cmd p
                           (v\<lparr>Stdout := Stdout v @ [ProcessingFile p]\<rparr>)))
          [ex_file, ex_file_b] ex_world2)
   \<and> deleteFromTSMFiles example_lib (\<lambda>p. no_faults) ex_cmd [ex_file, ex_file_b] ex_world2 =
       deleteFromTSMFiles example_lib (\<lambda>p. no_faults) ex_cmd [ex_file_b, ex_file] ex_world2
   \<and> disk (snd (deleteFromTSMFiles example_lib (\<lambda>p. no_faults) ex_cmd [ex_file_b, ex_file]
         ex_world2)) ex_file_b =
       Some (Segment [mk_block ''cpu,host=b#!~#value'', mk_block ''mem,host=a#!~#value''])
   \<and> processed (Stdout (snd (deleteFromTSMFiles example_lib (\<lambda>p. no_faults) ex_cmd
        [ex_file_b, ex_file] ex_world2))) = processed (Stdout ex_world2) @ [ex_file, ex_file_b]"
proof -
  note T = C9_files_processed_in_sorted_order [of example_lib "\<lambda>p. no_faults" ex_cmd
        "[ex_file_b, ex_file]" ex_world2 "[ex_file, ex_file_b]"]
  have n0: "(0::nat) < length [ex_file_b, ex_file]"
    and n1: "(1::nat) < length [ex_file_b, ex_file]"
    by simp_all
  have "ex_file < ex_file_b" by (simp add: ex_file_def ex_file_b_def)
  then have lt: "sort [ex_file_b, ex_file] ! 0 < sort [ex_file_b, ex_file] ! 1"
    unfolding ex_sort by simp
  have m: "mset [ex_file, ex_file_b] = mset [ex_file_b, ex_file]" by simp
  have c1: "deleteFromTSMFiles example_lib (\<lambda>p. no_faults) ex_cmd [ex_file_b, ex_file] ex_world2 =
       (None,
        fold (\<lambda>p v. snd (processTSMFile example_lib no_faults ex_cmd p
                           (v\<lparr>Stdout := Stdout v @ [ProcessingFile p]\<rparr>)))
          [ex_file, ex_file_b] ex_world2)"
    using T [THEN conjunct1] unfolding ex_sort .
  have c5: "deleteFromTSMFiles example_lib (\<lambda>p. no_faults) ex_cmd [ex_file, ex_file_b] ex_world2 =
       deleteFromTSMFiles example_lib (\<lambda>p. no_faults) ex_cmd [ex_file_b, ex_file] ex_world2"
    using T [THEN conjunct2, THEN conjunct2, THEN conjunct2, THEN conjunct2, THEN conjunct1,
        THEN mp, OF m] .
  have c6: "processed (Stdout (snd (deleteFromTSMFiles example_lib (\<lambda>p. no_faults) ex_cmd
        [ex_file_b, ex_file] ex_world2))) = processed (Stdout ex_world2) @ [ex_file, ex_file_b]"
    using T [THEN conjunct2, THEN conjunct2, THEN conjunct2, THEN conjunct2, THEN conjunct2]
    unfolding ex_sort .
  have d: "disk (snd (deleteFromTSMFiles example_lib (\<lambda>p. no_faults) ex_cmd [ex_file_b, ex_file]
         ex_world2)) ex_file_b =
       Some (Segment [mk_block ''cpu,host=b#!~#value'', mk_block ''mem,host=a#!~#value''])"
    unfolding c1 snd_conv by (rule ex_unit_rewritten)
  from n0 n1 lt m c1 c5 d c6 show ?thesis
    by (intro conjI)
qed

text \<open>
  C10. For a block whose key parses to a measurement and no tags, the series key is the
  measurement followed by a comma, which is not the measurement. The block meets the
  filter exactly when that key with its comma is in the filter set; a filter set that
  holds the bare measurement and nothing else does not meet it, and a rewrite in which
  nothing fails keeps the block.
\<close>

theorem C10_tagless_series_key:
  assumes "ParseKey L (fst (SeriesAndFieldFromCompositeKey L (blk_key b))) = (m, [])"
  shows "formatSerieKey L (fst (SeriesAndFieldFromCompositeKey L (blk_key b))) = Inr (m @ '','')
    \<and> m @ '','' \<noteq> m
    \<and> (in_filter L cmd b \<longleftrightarrow> series cmd (m @ '','') \<noteq> None)
    \<and> (dom (series cmd) = {m} \<longrightarrow> \<not> in_filter L cmd b)
    \<and> (dom (series cmd) = {m} \<and> disk w path = Some (Segment bs) \<and> b \<in> set bs \<longrightarrow>
         (\<exists>kept. disk (snd (processTSMFile L no_faults cmd path w)) path = Some (Segment kept)
            \<and> b \<in> set kept))"
proof -
  have k: "formatSerieKey L (fst (SeriesAndFieldFromCompositeKey L (blk_key b))) = Inr (m @ '','')"
    using assms by (simp add: formatSerieKey_def)
  then have i: "in_filter L cmd b \<longleftrightarrow> series cmd (m @ '','') \<noteq> None"
    by (simp add: in_filter_def)
  have n: "\<not> in_filter L cmd b" if "dom (series cmd) = {m}"
  proof -
    have "m @ '','' \<notin> dom (series cmd)" using that by simp
    with i show ?thesis by (simp add: dom_def)
  qed
  have "\<exists>kept. disk (snd (processTSMFile L no_faults cmd path w)) path = Some (Segment kept)
            \<and> b \<in> set kept"
    if "dom (series cmd) = {m}" "disk w path = Some (Segment bs)" "b \<in> set bs"
    using that n by (simp add: processTSMFile_no_faults)
  with k i n show ?thesis by simp
qed

lemma ex_tagless_parse:
  "ParseKey example_lib (fst (SeriesAndFieldFromCompositeKey example_lib
      (blk_key (mk_block ''cpu#!~#value'')))) = (''cpu'', [])"
  by (simp add: example_lib_def composite_split_def parse_key_def Split_def mk_block_def)

theorem C10_witness:
  "ParseKey example_lib (fst (SeriesAndFieldFromCompositeKey example_lib
      (blk_key (mk_block ''cpu#!~#value'')))) = (''cpu'', [])
   \<and> dom (series ex_tagless_cmd) = {''cpu''}
   \<and> disk ex_tagless_world ex_file = Some (Segment [mk_block ''cpu#!~#value''])
   \<and> formatSerieKey example_lib (fst (SeriesAndFieldFromCompositeKey example_lib
      (blk_key (mk_block ''cpu#!~#value'')))) = Inr ''cpu,''
   \<and> \<not> in_filter example_lib ex_tagless_cmd (mk_block ''cpu#!~#value'')
   \<and> (\<exists>kept. disk (snd (processTSMFile example_lib no_faults ex_tagless_cmd ex_file
                 ex_tagless_world)) ex_file = Some (Segment kept)
        \<and> mk_block ''cpu#!~#value'' \<in> set kept)"
proof -
  have d: "dom (series ex_tagless_cmd) = {''cpu''}"
    by (simp add: ex_tagless_cmd_def)
  have f: "disk ex_tagless_world ex_file = Some (Segment [mk_block ''cpu#!~#value''])"
    by (simp add: ex_tagless_world_def)
  have n: "series ex_tagless_cmd ''cpu,'' = None"
    by (simp add: ex_tagless_cmd_def)
  show ?thesis
    using C10_tagless_series_key [OF ex_tagless_parse, of ex_tagless_cmd ex_tagless_world
        ex_file "[mk_block ''cpu#!~#value'']"] ex_tagless_parse d f n
    by simp
qed


subsection \<open>Errors of a rewrite inside a unit, malformed keys, the sanitize flag\<close>

text \<open>\<^verbatim>\<open>deleteFromTSMFiles\<close> and \<^verbatim>\<open>deleteSeries\<close> return nil on every input.\<close>

lemma deleteFromTSMFiles_nil: "fst (deleteFromTSMFiles L fo cmd files w) = None"
  by (simp add: deleteFromTSMFiles_def)

lemma deleteSeries_loop_nil: "fst (deleteSeries_loop L E cmd ks w) = None"
proof (induction ks arbitrary: w)
  case Nil
  show ?case by simp
next
  case (Cons k ks)
  show ?case
    by (simp add: Cons.IH deleteFromTSMFiles_def split: option.split)
qed

text \<open>
  C6. The claim fails on the code. In a unit of two files of which the first is not a
  TSM file, the rewrite of the first returns an error; \<^verbatim>\<open>deleteFromTSMFiles\<close> goes on
  to the second file, rewrites it, and returns nil, and so does the whole run.
\<close>

theorem C6_error_in_unit_is_dropped:
  "fst (processTSMFile example_lib no_faults ex_cmd ex_file
          (ex_world2\<lparr>Stdout := [ProcessingFile ex_file]\<rparr>)) = Some (ReaderError ex_file)
   \<and> fst (deleteFromTSMFiles example_lib (\<lambda>p. no_faults) ex_cmd [ex_file, ex_file_b] ex_world2)
       = None
   \<and> Stdout (snd (deleteFromTSMFiles example_lib (\<lambda>p. no_faults) ex_cmd [ex_file, ex_file_b]
        ex_world2)) = [ProcessingFile ex_file, ProcessingFile ex_file_b, DroppedTotal 1]
   \<and> disk (snd (deleteFromTSMFiles example_lib (\<lambda>p. no_faults) ex_cmd [ex_file, ex_file_b]
        ex_world2)) ex_file_b =
       Some (Segment [mk_block ''cpu,host=b#!~#value'', mk_block ''mem,host=a#!~#value''])
   \<and> fst (Run example_lib ex_env2 ex_flags ex_world2) = None"
  by code_simp

text \<open>The errors of the loop are those of reading and of writing a block.\<close>

lemma iterate_blocks_errors:
  "fst (iterate_blocks L ft cmd i bs out n) = Some e \<Longrightarrow>
   e = BlockReadError \<or> e = WriteBlockError"
proof (induction bs arbitrary: i out n)
  case Nil
  then show ?case by simp
next
  case (Cons b bs)
  obtain k where k: "formatSerieKey L (fst (SeriesAndFieldFromCompositeKey L (blk_key b))) = Inr k"
    using formatSerieKey_Inr by blast
  from Cons.prems k show ?case
    by (auto split: if_splits dest: Cons.IH)
qed

lemma processTSMFile_errors:
  assumes "fst (processTSMFile L ft cmd path w) = Some e"
  shows "e \<in> {OpenError path, ReaderError path, RemoveError (path @ ''.rewriting.tmp''),
              RemoveError (path @ ''.rewriting.tmp.idx.tmp''),
              CreateError (path @ ''.rewriting.tmp''), WriterError, BlockReadError,
              WriteBlockError, WriteIndexError, CloseError, RenameError}"
proof (cases "\<exists>bs. disk w path = Some (Segment bs)")
  case False
  with assms show ?thesis
    by (auto simp: processTSMFile_def split: option.splits content.splits if_splits)
next
  case True
  then obtain bs where bs: "disk w path = Some (Segment bs)" by blast
  obtain r out n where it: "iterate_blocks L ft cmd 0 bs [] 0 = (r, out, n)"
    by (cases "iterate_blocks L ft cmd 0 bs [] 0")
  have r: "r = None \<or> r = Some BlockReadError \<or> r = Some WriteBlockError"
    using iterate_blocks_errors [of L ft cmd 0 bs "[]" 0] it by (cases r) auto
  from r assms bs it show ?thesis
    by (auto simp: processTSMFile_def Let_def split: if_splits)
qed

text \<open>
  C7, as amended. No composite key makes the rewrite fail: \<^verbatim>\<open>formatSerieKey\<close> returns a
  series key and a nil error for every input; the loop over the blocks returns only the
  errors of reading and of writing a block; the errors of the rewrite are those of
  opening, reading, removing, creating, writing, indexing, closing and renaming; and
  when none of these steps fails the rewrite of a TSM file returns nil whatever its keys
  are.
\<close>

theorem C7_no_key_parse_error:
  "(\<exists>k. formatSerieKey L s = Inr k)
   \<and> (fst (iterate_blocks L ft cmd i bs out n) = Some e \<longrightarrow>
        e = BlockReadError \<or> e = WriteBlockError)
   \<and> (fst (processTSMFile L ft cmd path w) = Some e' \<longrightarrow>
        e' \<in> {OpenError path, ReaderError path, RemoveError (path @ ''.rewriting.tmp''),
              RemoveError (path @ ''.rewriting.tmp.idx.tmp''),
              CreateError (path @ ''.rewriting.tmp''), WriterError, BlockReadError,
              WriteBlockError, WriteIndexError, CloseError, RenameError})
   \<and> (disk w path = Some (Segment bs) \<longrightarrow> fst (processTSMFile L no_faults cmd path w) = None)"
  using formatSerieKey_Inr [of L s] iterate_blocks_errors [of L ft cmd i bs out n e]
    processTSMFile_errors [of L ft cmd path w e'] processTSMFile_no_faults [of w path bs L cmd]
  by simp

lemma ex_malformed_disk:
  "disk ex_malformed_world ex_file = Some (Segment [mk_block [], mk_block ''=,=''])"
  by (simp add: ex_malformed_world_def)

lemma ex_malformed_read_fault:
  "fst (iterate_blocks example_lib (no_faults\<lparr>read_fails_at := Some 0\<rparr>) ex_cmd 0
          [mk_block [], mk_block ''=,=''] [] 0) = Some BlockReadError
   \<and> fst (processTSMFile example_lib (no_faults\<lparr>read_fails_at := Some 0\<rparr>) ex_cmd ex_file
          ex_malformed_world) = Some BlockReadError"
  by code_simp

theorem C7_witness:
  "fst (iterate_blocks example_lib (no_faults\<lparr>read_fails_at := Some 0\<rparr>) ex_cmd 0
          [mk_block [], mk_block ''=,=''] [] 0) = Some BlockReadError
   \<and> fst (processTSMFile example_lib (no_faults\<lparr>read_fails_at := Some 0\<rparr>) ex_cmd ex_file
          ex_malformed_world) = Some BlockReadError
   \<and> disk ex_malformed_world ex_file = Some (Segment [mk_block [], mk_block ''=,=''])
   \<and> (\<exists>k. formatSerieKey example_lib [] = Inr k)
   \<and> fst (processTSMFile example_lib no_faults ex_cmd ex_file ex_malformed_world) = None"
  using C7_no_key_parse_error [of example_lib "[]" "no_faults\<lparr>read_fails_at := Some 0\<rparr>"
      ex_cmd 0 "[mk_block [], mk_block ''=,='']" "[]" 0 BlockReadError ex_file
      ex_malformed_world BlockReadError]
    ex_malformed_read_fault ex_malformed_disk
  by simp

text \<open>
  C7, as stated, fails: the rewrite of a TSM file whose two blocks have the keys
  \<^verbatim>\<open>""\<close> and \<^verbatim>\<open>"=,="\<close>, neither of which holds a measurement, a field separator or a
  field name, returns nil and keeps both blocks.
\<close>

theorem C7_counterexample:
  "fst (processTSMFile example_lib no_faults ex_cmd ex_file ex_malformed_world) = None
   \<and> disk (snd (processTSMFile example_lib no_faults ex_cmd ex_file ex_malformed_world)) ex_file
       = Some (Segment [mk_block [], mk_block ''=,=''])
   \<and> Stdout (snd (processTSMFile example_lib no_faults ex_cmd ex_file ex_malformed_world))
       = [DroppedTotal 0]"
  by code_simp












end
